theory Spec2Isabelle
  imports Complex_Main "HOL-Library.Multiset"
begin

section \<open>Text\<close>

text \<open>
  A Python \<open>str\<close> is a sequence of Unicode code points. A code point is a natural
  number (\<open>ord\<close> of the one-character string), a string is a list of them; \<open>len\<close> is
  \<open>length\<close>. Python's unbounded \<open>int\<close> is \<open>int\<close>.
\<close>

type_synonym pychar = nat
type_synonym pystr = "pychar list"

definition of_ascii :: "string \<Rightarrow> pystr" where
  "of_ascii s = map of_char s"

section \<open>crypto/caesar.py\<close>

text \<open>
  \<open>_shift_char(c, k)\<close>: \<open>'A' <= c <= 'Z'\<close> on a one-character string compares the code
  point with 65 and 90, \<open>'a' <= c <= 'z'\<close> with 97 and 122. \<open>%\<close> with the positive
  divisor 26 is \<open>mod\<close> on \<open>int\<close>; the argument of \<open>chr\<close> is between 65 and 122, so
  \<open>chr\<close> never raises.
\<close>

definition shift_char :: "pychar \<Rightarrow> int \<Rightarrow> pychar" where
  "shift_char c k =
     (if 65 \<le> c \<and> c \<le> 90 then nat ((int c - 65 + k) mod 26 + 65)
      else if 97 \<le> c \<and> c \<le> 122 then nat ((int c - 97 + k) mod 26 + 97)
      else c)"

definition encrypt :: "pystr \<Rightarrow> int \<Rightarrow> pystr" where
  "encrypt plaintext k = (let k' = k mod 26 in map (\<lambda>c. shift_char c k') plaintext)"

definition decrypt :: "pystr \<Rightarrow> int \<Rightarrow> pystr" where
  "decrypt ciphertext k = encrypt ciphertext (- k)"

section \<open>crypto/bruteforce.py\<close>

text \<open>
  \<open>brute_force_caesar\<close>: the \<open>for k in range(0, 26)\<close> loop appends one pair to
  \<open>candidates\<close> in each iteration; \<open>bf_loop\<close> is the loop over the remaining keys with
  the list built so far.
\<close>

fun bf_loop :: "pystr \<Rightarrow> int list \<Rightarrow> (int \<times> pystr) list \<Rightarrow> (int \<times> pystr) list" where
  "bf_loop ciphertext [] candidates = candidates"
| "bf_loop ciphertext (k # ks) candidates =
     bf_loop ciphertext ks (candidates @ [(k, decrypt ciphertext k)])"

definition brute_force_caesar :: "pystr \<Rightarrow> (int \<times> pystr) list" where
  "brute_force_caesar ciphertext = bf_loop ciphertext [0..25] []"

section \<open>The Python runtime\<close>

text \<open>
  The scoring code calls string methods and regular expressions whose results depend on
  the Unicode character database of the interpreter, which is not part of the
  repository. The model takes them as a parameter \<open>U\<close>: \<open>str_isalpha\<close> and
  \<open>str_isspace\<close> are \<open>str.isalpha\<close> and \<open>str.isspace\<close> of a one-character string,
  \<open>re_word\<close> says which characters the regular expression class \<open>\w\<close> matches, and
  \<open>str_lower\<close>, \<open>str_upper\<close> are \<open>str.lower\<close> and \<open>str.upper\<close> (the result of
  \<open>c.lower()\<close> on one character may have more than one character). Every theorem
  below holds for every such \<open>U\<close>, the interpreter's own included.
\<close>

record pyrt =
  str_isalpha :: "pychar \<Rightarrow> bool"
  str_isspace :: "pychar \<Rightarrow> bool"
  re_word :: "pychar \<Rightarrow> bool"
  str_lower :: "pystr \<Rightarrow> pystr"
  str_upper :: "pystr \<Rightarrow> pystr"

text \<open>
  \<open>latin1\<close> is the interpreter's database on the code points below 256 (Basic Latin
  and Latin-1 Supplement), used to evaluate the model on concrete texts of such
  characters; on other code points it classifies nothing and changes nothing.
\<close>

definition latin1_isalpha :: "pychar \<Rightarrow> bool" where
  "latin1_isalpha c =
     ((65 \<le> c \<and> c \<le> 90) \<or> (97 \<le> c \<and> c \<le> 122) \<or> c = 170 \<or> c = 181 \<or> c = 186
      \<or> (192 \<le> c \<and> c \<le> 214) \<or> (216 \<le> c \<and> c \<le> 246) \<or> (248 \<le> c \<and> c \<le> 255))"

definition latin1_isspace :: "pychar \<Rightarrow> bool" where
  "latin1_isspace c = ((9 \<le> c \<and> c \<le> 13) \<or> (28 \<le> c \<and> c \<le> 32) \<or> c = 133 \<or> c = 160)"

definition latin1_word :: "pychar \<Rightarrow> bool" where
  "latin1_word c =
     (latin1_isalpha c \<or> (48 \<le> c \<and> c \<le> 57) \<or> c = 95
      \<or> c = 178 \<or> c = 179 \<or> c = 185 \<or> c = 188 \<or> c = 189 \<or> c = 190)"

definition latin1_lower_char :: "pychar \<Rightarrow> pychar" where
  "latin1_lower_char c =
     (if (65 \<le> c \<and> c \<le> 90) \<or> (192 \<le> c \<and> c \<le> 214) \<or> (216 \<le> c \<and> c \<le> 222)
      then c + 32 else c)"

definition latin1_upper_char :: "pychar \<Rightarrow> pystr" where
  "latin1_upper_char c =
     (if (97 \<le> c \<and> c \<le> 122) \<or> (224 \<le> c \<and> c \<le> 246) \<or> (248 \<le> c \<and> c \<le> 254)
      then [c - 32]
      else if c = 181 then [924] else if c = 223 then [83, 83] else if c = 255 then [376]
      else [c])"

definition latin1 :: pyrt where
  "latin1 = \<lparr> str_isalpha = latin1_isalpha, str_isspace = latin1_isspace,
              re_word = latin1_word, str_lower = map latin1_lower_char,
              str_upper = (\<lambda>s. concat (map latin1_upper_char s)) \<rparr>"

text \<open>\<open>str.strip()\<close> and \<open>str.split()\<close> without arguments work on whitespace.\<close>

definition strip :: "pyrt \<Rightarrow> pystr \<Rightarrow> pystr" where
  "strip U s = rev (dropWhile (str_isspace U) (rev (dropWhile (str_isspace U) s)))"

fun split_ws :: "pyrt \<Rightarrow> pystr \<Rightarrow> pystr \<Rightarrow> pystr list" where
  "split_ws U cur [] = (if cur = [] then [] else [cur])"
| "split_ws U cur (c # cs) =
     (if str_isspace U c
      then (if cur = [] then split_ws U [] cs else cur # split_ws U [] cs)
      else split_ws U (cur @ [c]) cs)"

definition split :: "pyrt \<Rightarrow> pystr \<Rightarrow> pystr list" where
  "split U s = split_ws U [] s"

text \<open>\<open>pattern in text\<close> on strings: the pattern occurs as a contiguous substring.\<close>

fun contains :: "pystr \<Rightarrow> pystr \<Rightarrow> bool" where
  "contains [] p = (p = [])"
| "contains (c # cs) p = (take (length p) (c # cs) = p \<or> contains cs p)"

text \<open>Comparison of strings (\<open><=\<close>) is lexicographic on code points.\<close>

fun str_le :: "pystr \<Rightarrow> pystr \<Rightarrow> bool" where
  "str_le [] t = True"
| "str_le (c # cs) [] = False"
| "str_le (c # cs) (d # ds) = (c < d \<or> (c = d \<and> str_le cs ds))"

subsection \<open>The two regular expressions\<close>

text \<open>
  \<open>re.findall(r'\b[a-z\u0080-\uFFFF]+\b', s)\<close>: \<open>\b\<close> holds between two positions when
  exactly one of the neighbouring characters is a \<open>\w\<close> character (the outside of the
  string counts as not one). At a position where \<open>\b\<close> holds, the class matches the
  longest run of its characters and gives characters back until \<open>\b\<close> holds at the
  end; the search goes on after the match, or one character further when there is none.
\<close>

definition in_word_class :: "pychar \<Rightarrow> bool" where
  "in_word_class c = ((97 \<le> c \<and> c \<le> 122) \<or> (128 \<le> c \<and> c \<le> 65535))"

definition word_boundary :: "pyrt \<Rightarrow> pychar option \<Rightarrow> pychar option \<Rightarrow> bool" where
  "word_boundary U p n =
     ((case p of None \<Rightarrow> False | Some c \<Rightarrow> re_word U c)
        \<noteq> (case n of None \<Rightarrow> False | Some c \<Rightarrow> re_word U c))"

text \<open>
  \<open>match_end U cs j\<close>: the match starts with the character before \<open>cs\<close>, and \<open>j\<close>
  characters of \<open>cs\<close> are in the class; the result \<open>i\<close> is the largest \<open>i \<le> j\<close> with
  \<open>\b\<close> after \<open>i\<close> characters of \<open>cs\<close>.
\<close>

fun match_end :: "pyrt \<Rightarrow> pychar \<Rightarrow> pystr \<Rightarrow> nat \<Rightarrow> nat option" where
  "match_end U c cs 0 =
     (if word_boundary U (Some c) (case cs of [] \<Rightarrow> None | d # _ \<Rightarrow> Some d) then Some 0 else None)"
| "match_end U c cs (Suc j) =
     (if word_boundary U (Some (cs ! j)) (if Suc j < length cs then Some (cs ! Suc j) else None)
      then Some (Suc j) else match_end U c cs j)"

fun findall_from :: "pyrt \<Rightarrow> pychar option \<Rightarrow> pystr \<Rightarrow> pystr list" where
  "findall_from U p [] = []"
| "findall_from U p (c # cs) =
     (if word_boundary U p (Some c) \<and> in_word_class c
      then (case match_end U c cs (length (takeWhile in_word_class cs)) of
              Some i \<Rightarrow> (c # take i cs) # findall_from U (Some (last (c # take i cs))) (drop i cs)
            | None \<Rightarrow> findall_from U (Some c) cs)
      else findall_from U (Some c) cs)"

definition findall_words :: "pyrt \<Rightarrow> pystr \<Rightarrow> pystr list" where
  "findall_words U s = findall_from U None s"

text \<open>
  \<open>re.match(r'^[\w\u0080-\uFFFF]+$', s, re.UNICODE)\<close>: \<open>$\<close> matches at the end of the
  string and before a newline that ends it.
\<close>

definition in_token_class :: "pyrt \<Rightarrow> pychar \<Rightarrow> bool" where
  "in_token_class U c = (re_word U c \<or> (128 \<le> c \<and> c \<le> 65535))"

definition match_token :: "pyrt \<Rightarrow> pystr \<Rightarrow> bool" where
  "match_token U s =
     ((s \<noteq> [] \<and> list_all (in_token_class U) s)
      \<or> (s \<noteq> [] \<and> last s = 10 \<and> butlast s \<noteq> [] \<and> list_all (in_token_class U) (butlast s)))"

section \<open>crypto/scoring.py\<close>

text \<open>
  A \<open>float\<close> is modelled as a real number: the scores are sums, products and quotients
  of a few bounded terms, and rounding to the nearest double is not modelled. A \<open>dict\<close>
  with string keys is an association list, \<open>d.get(k, v)\<close> is \<open>dict_get d k v\<close>, and a
  dictionary is true when it is not empty. A \<open>set\<close> of strings is a set.
\<close>

type_synonym 'v pydict = "(pystr \<times> 'v) list"

definition dict_get :: "'v pydict \<Rightarrow> pystr \<Rightarrow> 'v \<Rightarrow> 'v" where
  "dict_get d k v = (case map_of d k of None \<Rightarrow> v | Some w \<Rightarrow> w)"

text \<open>The keys of \<open>Counter(xs)\<close>, in the order of their first occurrences.\<close>

definition counter_keys :: "'a list \<Rightarrow> 'a list" where
  "counter_keys xs = rev (remdups (rev xs))"

definition stopwords_count :: "pyrt \<Rightarrow> pystr \<Rightarrow> pystr set \<Rightarrow> nat" where
  "stopwords_count U text stopwords =
     (if stopwords = {} then 0
      else length (filter (\<lambda>w. w \<in> stopwords) (findall_words U (str_lower U text))))"

definition valid_word_ratio :: "pyrt \<Rightarrow> pystr \<Rightarrow> pystr set \<Rightarrow> real" where
  "valid_word_ratio U text vocabulary =
     (if vocabulary = {} then 0.0
      else let words = findall_words U (str_lower U text) in
        if words = [] then 0.0
        else let valid = length (filter (\<lambda>w. w \<in> vocabulary) words);
                 ratio = real valid / real (length words)
             in if ratio = 1.0 \<and> length words > 0 then min 1.0 (ratio + 0.05) else ratio)"

definition ngram_likelihood :: "pyrt \<Rightarrow> pystr \<Rightarrow> real pydict \<Rightarrow> nat \<Rightarrow> real" where
  "ngram_likelihood U text ngrams n =
     (let text = str_lower U text
      in foldl (\<lambda>score i. score + dict_get ngrams (take n (drop i text)) (- 15.0)) 0.0
           [0 ..< length text + 1 - n])"

definition character_entropy :: "pystr \<Rightarrow> real" where
  "character_entropy text =
     (let counts = map (count_list text) (counter_keys text);
          total = sum_list counts
      in foldl (\<lambda>entropy c. let p = real c / real total in entropy - p * log 2 p) 0.0 counts)"

definition ENGLISH_LETTER_FREQ :: "real pydict" where
  "ENGLISH_LETTER_FREQ = [
     ([97], 0.08167), ([98], 0.01492), ([99], 0.02782), ([100], 0.04253),
     ([101], 0.12702), ([102], 0.02228), ([103], 0.02015), ([104], 0.06094),
     ([105], 0.06966), ([106], 0.00153), ([107], 0.00772), ([108], 0.04025),
     ([109], 0.02406), ([110], 0.06749), ([111], 0.07507), ([112], 0.01929),
     ([113], 0.00095), ([114], 0.05987), ([115], 0.06327), ([116], 0.09056),
     ([117], 0.02758), ([118], 0.00978), ([119], 0.02360), ([120], 0.00150),
     ([121], 0.01974), ([122], 0.00074)]"

definition FRENCH_LETTER_FREQ :: "real pydict" where
  "FRENCH_LETTER_FREQ = [
     ([97], 0.07636), ([98], 0.00901), ([99], 0.03260), ([100], 0.03669),
     ([101], 0.14715), ([102], 0.01066), ([103], 0.00866), ([104], 0.00737),
     ([105], 0.07529), ([106], 0.00613), ([107], 0.00049), ([108], 0.05456),
     ([109], 0.02968), ([110], 0.07110), ([111], 0.05796), ([112], 0.02521),
     ([113], 0.01362), ([114], 0.06693), ([115], 0.07948), ([116], 0.07244),
     ([117], 0.06311), ([118], 0.01629), ([119], 0.00074), ([120], 0.00427),
     ([121], 0.00128), ([122], 0.00326)]"

text \<open>
  \<open>detect_language_alphabet\<close> computes \<open>latin_count\<close> and does not use it.
\<close>

definition detect_language_alphabet :: "pyrt \<Rightarrow> pystr \<Rightarrow> pystr" where
  "detect_language_alphabet U text =
     (let letters = filter (str_isalpha U) text in
      if letters = [] then of_ascii ''latin''
      else let latin_count =
                 length (filter (\<lambda>c. str_le (of_ascii ''A'') (str_upper U [c])
                                      \<and> str_le (str_upper U [c]) (of_ascii ''Z'')) letters)
           in of_ascii ''latin'')"

definition get_letter_frequencies_for_alphabet :: "pystr \<Rightarrow> real pydict" where
  "get_letter_frequencies_for_alphabet alphabet = ENGLISH_LETTER_FREQ"

text \<open>
  \<open>chi_squared_letter_score(text, expected=None)\<close>. \<open>letters_of\<close> is the list
  \<open>letters\<close>, \<open>chi2_step\<close> the body of the loop over \<open>all_letters\<close> (the union of the
  observed letters and the keys of \<open>expected\<close>), \<open>chi2_statistic\<close> the value of \<open>chi2\<close>
  after the loop, \<open>normalized_chi2\<close> the variable of this name and \<open>chi2_to_score\<close>
  the three branches and the final \<open>max(0.01, min(1.0, score))\<close>.
\<close>

definition letters_of :: "pyrt \<Rightarrow> pystr \<Rightarrow> pystr list" where
  "letters_of U text = map (\<lambda>c. str_lower U [c]) (filter (str_isalpha U) text)"

definition all_letters :: "pystr list \<Rightarrow> real pydict \<Rightarrow> pystr list" where
  "all_letters letters expected = remdups (counter_keys letters @ map fst expected)"

definition chi2_step :: "real pydict \<Rightarrow> pystr list \<Rightarrow> real \<Rightarrow> pystr \<Rightarrow> real" where
  "chi2_step expected letters chi2 ch =
     (let n = length letters;
          observed = count_list letters ch;
          exp_freq = dict_get expected ch 0.0
      in if exp_freq > 0 then
           (let expected_count = exp_freq * real n
            in if expected_count > 0.01
               then chi2 + (real observed - expected_count) ^ 2 / expected_count
               else if observed > 0 then chi2 + real (observed * 10)
               else chi2)
         else chi2)"

definition chi2_statistic :: "real pydict \<Rightarrow> pystr list \<Rightarrow> real" where
  "chi2_statistic expected letters =
     foldl (chi2_step expected letters) 0.0 (all_letters letters expected)"

definition normalized_chi2 :: "real pydict \<Rightarrow> pystr list \<Rightarrow> real" where
  "normalized_chi2 expected letters =
     (let chi2 = chi2_statistic expected letters;
          degrees_of_freedom = max (int (length (all_letters letters expected)) - 1) 1
      in if degrees_of_freedom > 0 then chi2 / real_of_int degrees_of_freedom else chi2)"

definition chi2_to_score :: "real \<Rightarrow> real" where
  "chi2_to_score stat =
     (let score = (if stat < 1 then 1.0
                   else if stat < 50 then exp (- stat / 10.0)
                   else 1.0 / (1.0 + stat / 100.0))
      in max 0.01 (min 1.0 score))"

definition chi_squared_letter_score :: "pyrt \<Rightarrow> pystr \<Rightarrow> real pydict option \<Rightarrow> real" where
  "chi_squared_letter_score U text expected =
     (let expected = (case expected of
                        None \<Rightarrow> get_letter_frequencies_for_alphabet (detect_language_alphabet U text)
                      | Some e \<Rightarrow> e);
          letters = letters_of U text
      in if length letters = 0 then 0.01
         else chi2_to_score (normalized_chi2 expected letters))"

text \<open>
  The resources of a language: the dictionary \<open>resources\<close> with its four entries (an
  entry that is missing reads as empty, as \<open>resources.get\<close> does).
\<close>

record resources =
  vocab :: "pystr set"
  stopwords :: "pystr set"
  bigrams :: "real pydict"
  trigrams :: "real pydict"

definition common_patterns :: "pystr list" where
  "common_patterns = map of_ascii [
     ''th'', ''he'', ''in'', ''er'', ''an'', ''re'', ''ed'',
     ''nd'', ''ou'', ''to'', ''en'', ''at'', ''it'', ''is'',
     ''or'', ''ti'', ''as'', ''of'', ''st'', ''le'', ''de'',
     ''et'', ''la'', ''un'', ''es'', ''nt'', ''on'', ''te'']"

text \<open>
  \<open>heuristic_score(text, resources)\<close>. Its parts are named after the local variables:
  \<open>hs_ng_norm\<close>, \<open>hs_freq_score\<close>, \<open>hs_ent_score\<close>, \<open>pattern_count\<close> and
  \<open>pattern_score\<close> take the text after \<open>text = text.lower()\<close>.
\<close>

definition hs_ng_norm :: "pyrt \<Rightarrow> pystr \<Rightarrow> resources \<Rightarrow> real" where
  "hs_ng_norm U text res =
     (if trigrams res \<noteq> [] \<and> length text \<ge> 3 then
        (let ng = ngram_likelihood U text (trigrams res) 3;
             num_trigrams = max (int (length text) - 2) 1;
             ng_avg = ng / real_of_int num_trigrams
         in if ng_avg > - 3 then 1.0
            else if ng_avg > - 10 then max 0.0 (1.0 + (ng_avg + 3) / 7.0)
            else 0.0)
      else if bigrams res \<noteq> [] \<and> length text \<ge> 2 then
        (let ng = ngram_likelihood U text (bigrams res) 2;
             num_bigrams = max (int (length text) - 1) 1;
             ng_avg = ng / real_of_int num_bigrams
         in if ng_avg > - 2 then 1.0
            else if ng_avg > - 8 then max 0.0 (1.0 + (ng_avg + 2) / 6.0)
            else 0.0)
      else 0.0)"

definition hs_freq_score :: "pyrt \<Rightarrow> pystr \<Rightarrow> real" where
  "hs_freq_score U text = chi_squared_letter_score U text None"

definition hs_ent_score :: "pyrt \<Rightarrow> pystr \<Rightarrow> real" where
  "hs_ent_score U text =
     (let letters_only = filter (str_isalpha U) text in
      if length letters_only > 0
      then (let ent = character_entropy letters_only
            in max 0.0 (1.0 - \<bar>ent - 4.0\<bar> / 2.0))
      else 0.0)"

definition pattern_count :: "pyrt \<Rightarrow> pystr \<Rightarrow> nat" where
  "pattern_count U text =
     (let text_lower = str_lower U text
      in length (filter (\<lambda>pattern. contains text_lower pattern) common_patterns))"

definition pattern_score :: "pyrt \<Rightarrow> pystr \<Rightarrow> real" where
  "pattern_score U text =
     (let text_length = max (length text) 1
      in if text_length > 0
         then min 1.0 (real (pattern_count U text) / max (real text_length / 20) 1)
         else 0.0)"

definition heuristic_score :: "pyrt \<Rightarrow> pystr \<Rightarrow> resources \<Rightarrow> real" where
  "heuristic_score U text0 res =
     (let text = str_lower U text0;
          text_length = max (length text) 1;
          words = split U text;
          word_count = length words;
          vr = (if vocab res \<noteq> {} then valid_word_ratio U text (vocab res) else 0.0);
          sw = stopwords_count U text (stopwords res);
          sw_norm = (if word_count > 0 then min (real sw / real (max word_count 1)) 1.0 else 0.0);
          ng_norm = hs_ng_norm U text res;
          freq_score = hs_freq_score U text;
          ent_score = hs_ent_score U text;
          pattern_score = pattern_score U text;
          is_single_word = (word_count = 1);
          is_short = (text_length < 30);
          score =
            (if is_single_word then
               0.50 * freq_score + 0.30 * vr + 0.15 * pattern_score + 0.05 * ent_score
             else if is_short then
               0.35 * freq_score + 0.30 * vr + 0.20 * ng_norm + 0.10 * sw_norm + 0.05 * ent_score
             else
               0.40 * vr + 0.30 * ng_norm + 0.15 * freq_score + 0.10 * sw_norm + 0.05 * ent_score)
      in min 1.0 (max 0.01 score))"

section \<open>app.py\<close>

text \<open>
  The value of \<open>score\<close> that reaches the check of line 180 is a \<open>float\<close>, which can be
  not-a-number or infinite; \<open>pyfloat\<close> has these values beside the real numbers.
\<close>

datatype pyfloat = Finite real | PosInf | NegInf | NaN

definition isnan :: "pyfloat \<Rightarrow> bool" where
  "isnan x = (x = NaN)"

definition isinf :: "pyfloat \<Rightarrow> bool" where
  "isinf x = (x = PosInf \<or> x = NegInf)"

text \<open>\<open>x < 0\<close>: false for not-a-number, as every comparison with it.\<close>

definition float_neg :: "pyfloat \<Rightarrow> bool" where
  "float_neg x = (case x of Finite r \<Rightarrow> r < 0 | NegInf \<Rightarrow> True | _ \<Rightarrow> False)"

text \<open>
  \<open>round(x, 4)\<close> rounds to the nearest multiple of 0.0001, a number half way between
  two of them to the even one.
\<close>

definition round_half_even :: "real \<Rightarrow> int" where
  "round_half_even x =
     (let f = \<lfloor>x\<rfloor>; d = x - of_int f
      in if d < 1 / 2 then f else if d > 1 / 2 then f + 1 else if even f then f else f + 1)"

definition round4 :: "real \<Rightarrow> real" where
  "round4 x = of_int (round_half_even (x * 10000)) / 10000"

record candidate =
  key :: int
  plaintext :: pystr
  score :: real

definition COMMON_WORDS_en :: "pystr set" where
  "COMMON_WORDS_en = {
        of_ascii ''the'', of_ascii ''and'', of_ascii ''is'', of_ascii ''to'', of_ascii ''of'', of_ascii ''you'',
        of_ascii ''hello'', of_ascii ''that'', of_ascii ''in'', of_ascii ''it'', of_ascii ''dog'', of_ascii ''cat'',
        of_ascii ''this'', of_ascii ''message'', of_ascii ''secret'', of_ascii ''word'', of_ascii ''text'', of_ascii ''code''}"

definition COMMON_WORDS_fr :: "pystr set" where
  "COMMON_WORDS_fr = {
        of_ascii ''le'', of_ascii ''la'', of_ascii ''et'', of_ascii ''de'', of_ascii ''un'', of_ascii ''bonjour'',
        of_ascii ''je'', of_ascii ''tu'', of_ascii ''il'', of_ascii ''elle'', of_ascii ''nous'', of_ascii ''vous'',
        of_ascii ''message'', of_ascii ''secret'', of_ascii ''mot'', of_ascii ''texte'', of_ascii ''code''}"

text \<open>\<open>COMMON_WORDS.get(lang, COMMON_WORDS['en'])\<close>.\<close>

definition common_aug :: "pystr \<Rightarrow> pystr set" where
  "common_aug lang =
     (if lang = of_ascii ''en'' then COMMON_WORDS_en
      else if lang = of_ascii ''fr'' then COMMON_WORDS_fr
      else COMMON_WORDS_en)"

definition is_single_word :: "pyrt \<Rightarrow> pystr \<Rightarrow> bool" where
  "is_single_word U cipher_text =
     (let words = split U cipher_text in length words = 1 \<and> match_token U cipher_text)"

definition augmented_vocab :: "pyrt \<Rightarrow> resources \<Rightarrow> pystr \<Rightarrow> pystr \<Rightarrow> pystr set" where
  "augmented_vocab U res lang cipher_text =
     (if is_single_word U cipher_text \<and> (vocab res = {} \<or> card (vocab res) < 50)
      then str_lower U ` vocab res \<union> common_aug lang
      else str_lower U ` vocab res \<union> common_aug lang)"

definition expected_freq :: "pystr \<Rightarrow> real pydict" where
  "expected_freq lang = (if lang = of_ascii ''fr'' then FRENCH_LETTER_FREQ else ENGLISH_LETTER_FREQ)"

text \<open>Lines 151 to 177: the score of a candidate from its three feature scores.\<close>

definition raw_score :: "bool \<Rightarrow> bool \<Rightarrow> real \<Rightarrow> real \<Rightarrow> real \<Rightarrow> real" where
  "raw_score single is_dict_match h_score word_score freq_score =
     (if single then
        (if is_dict_match then 0.95 + (freq_score * 0.05)
         else (let score = freq_score * 0.65 + h_score * 0.35
               in if score < 0.2 then score * 0.3 else score))
      else
        (if word_score > 0.7 then word_score * 0.55 + h_score * 0.30 + freq_score * 0.15
         else if word_score > 0.4 then word_score * 0.45 + h_score * 0.35 + freq_score * 0.20
         else if word_score > 0 then word_score * 0.30 + h_score * 0.40 + freq_score * 0.30
         else freq_score * 0.55 + h_score * 0.45))"

text \<open>Lines 180 to 189: from the computed score to the \<open>final_score\<close> of the candidate.\<close>

definition guard_score :: "pyfloat \<Rightarrow> real" where
  "guard_score s =
     (if isnan s \<or> isinf s \<or> float_neg s then 0.01
      else (case s of Finite r \<Rightarrow> r | _ \<Rightarrow> 0.01))"

definition final_score :: "pyfloat \<Rightarrow> real" where
  "final_score s =
     (let score = max 0.01 (guard_score s);
          final = round4 score
      in if final \<le> 0.0 then 0.0001 else final)"

text \<open>
  The body of the loop over the candidates. No operation of the scoring functions
  raises (every division has a divisor of at least 1 or a nonempty list's length, every
  logarithm a positive argument), so the \<open>except\<close> branch, which would give the
  candidate the score 0.0001, is not taken.
\<close>

definition candidate_raw_score :: "pyrt \<Rightarrow> resources \<Rightarrow> pystr \<Rightarrow> pystr \<Rightarrow> pystr \<Rightarrow> real" where
  "candidate_raw_score U res lang cipher_text ptext =
     (let vocabulary = augmented_vocab U res lang cipher_text;
          h_score = heuristic_score U ptext res;
          word_score = (if vocabulary \<noteq> {} then valid_word_ratio U ptext vocabulary else 0.0);
          freq_score = chi_squared_letter_score U ptext (Some (expected_freq lang));
          plaintext_lower = str_lower U (strip U ptext);
          is_dict_match = (plaintext_lower \<in> vocabulary)
      in raw_score (is_single_word U cipher_text) is_dict_match h_score word_score freq_score)"

definition score_candidate ::
  "pyrt \<Rightarrow> resources \<Rightarrow> pystr \<Rightarrow> pystr \<Rightarrow> int \<times> pystr \<Rightarrow> candidate" where
  "score_candidate U res lang cipher_text kp =
     \<lparr> key = fst kp, plaintext = snd kp,
       score = final_score (Finite (candidate_raw_score U res lang cipher_text (snd kp))) \<rparr>"

definition score_candidates :: "pyrt \<Rightarrow> resources \<Rightarrow> pystr \<Rightarrow> pystr \<Rightarrow> candidate list" where
  "score_candidates U res lang cipher_text =
     map (score_candidate U res lang cipher_text) (brute_force_caesar cipher_text)"

text \<open>
  Lines 212 to 236. \<open>candidates.sort(key=..., reverse=True)\<close> is a stable sort by
  descending score: candidates of equal score keep their order. The loop over \<open>top_5\<close>
  replaces a score that is not positive by 0.0001, in the dictionaries that \<open>best\<close>
  shares with \<open>top_5\<close>.
\<close>

definition sort_candidates :: "candidate list \<Rightarrow> candidate list" where
  "sort_candidates cs = sort_key (\<lambda>c. - score c) cs"

definition fix_score :: "candidate \<Rightarrow> candidate" where
  "fix_score c = (if score c \<le> 0.0 then c\<lparr>score := 0.0001\<rparr> else c)"

datatype rank_error = NoCandidates

definition rank_candidates :: "candidate list \<Rightarrow> rank_error + candidate \<times> candidate list" where
  "rank_candidates cs =
     (if cs = [] then Inl NoCandidates
      else let sorted_cs = sort_candidates cs;
               best = hd sorted_cs;
               top_5 = map fix_score (take 5 sorted_cs)
           in Inr (fix_score best, top_5))"

text \<open>
  The request is the JSON object of the body: each of its two entries is missing, a
  string, or a value of another type (with the name of its Python type, which the
  message of the raised \<open>AttributeError\<close> shows). The response is an error with its
  HTTP status and message, or the result.
\<close>

datatype json = JStr pystr | JOther pystr

record request =
  cipherText :: "json option"
  lang :: "json option"

record result =
  r_cipher :: pystr
  r_key :: int
  r_plainText :: pystr
  r_score :: real
  r_candidates :: "candidate list"

datatype response = Error nat pystr | Success result

definition request_lang :: "request \<Rightarrow> pystr" where
  "request_lang req =
     (case lang req of
        None \<Rightarrow> of_ascii ''en''
      | Some (JStr l) \<Rightarrow> (if l \<noteq> of_ascii ''en'' \<and> l \<noteq> of_ascii ''fr''
                        then (if l = [] \<or> l = of_ascii ''auto'' then of_ascii ''en'' else of_ascii ''en'')
                        else l)
      | Some (JOther _) \<Rightarrow> of_ascii ''en'')"

text \<open>
  Lines 98 to 244, reached with a nonempty \<open>cipher_text\<close> and the language \<open>l\<close>
  (\<open>en\<close> or \<open>fr\<close>); \<open>get_resources\<close> gives the cached resources of a language.
\<close>

definition run_pipeline :: "pyrt \<Rightarrow> (pystr \<Rightarrow> resources) \<Rightarrow> pystr \<Rightarrow> pystr \<Rightarrow> response" where
  "run_pipeline U get_resources cipher_text l =
     (let res = get_resources l;
          candidates = score_candidates U res l cipher_text
      in case rank_candidates candidates of
           Inl NoCandidates \<Rightarrow> Error 500 (of_ascii ''No candidates generated'')
         | Inr (best, top_5) \<Rightarrow>
             Success \<lparr> r_cipher = take 500 cipher_text, r_key = key best,
                       r_plainText = take 500 (plaintext best),
                       r_score = score best, r_candidates = top_5 \<rparr>)"

text \<open>
  \<open>analyze\<close>: a \<open>cipherText\<close> that is not a string has no \<open>strip\<close>, and the
  \<open>AttributeError\<close> is answered with status 500; a \<open>cipher_text\<close> that is empty after
  \<open>strip()\<close> is answered with status 400 before anything else is computed.
\<close>

definition analyze :: "pyrt \<Rightarrow> (pystr \<Rightarrow> resources) \<Rightarrow> request \<Rightarrow> response" where
  "analyze U get_resources req =
     (case (case cipherText req of None \<Rightarrow> JStr [] | Some v \<Rightarrow> v) of
        JOther ty \<Rightarrow>
          Error 500 (of_ascii [CHR 0x27] @ ty @ of_ascii '' object has no attribute ''
                     @ of_ascii [CHR 0x27] @ of_ascii ''strip'' @ of_ascii [CHR 0x27])
      | JStr raw \<Rightarrow>
          (let cipher_text = strip U raw
           in if cipher_text = [] then Error 400 (of_ascii ''Empty cipher text'')
              else run_pipeline U get_resources cipher_text (request_lang req)))"

text \<open>The resources of a language whose files could not be loaded.\<close>

definition no_resources :: resources where
  "no_resources = \<lparr> vocab = {}, stopwords = {}, bigrams = [], trigrams = [] \<rparr>"

text \<open>
  The claim of the specification about the pattern feature, in its own words: the
  occurrences of each entry of the list are counted (\<open>occurrences s p\<close> is the number of
  positions of \<open>s\<close> at which \<open>p\<close> occurs), then normalized and clamped as the code does.
\<close>

fun occurrences :: "pystr \<Rightarrow> pystr \<Rightarrow> nat" where
  "occurrences [] p = 0"
| "occurrences (c # cs) p = (if take (length p) (c # cs) = p then 1 else 0) + occurrences cs p"

definition spec_pattern_count :: "pyrt \<Rightarrow> pystr \<Rightarrow> nat" where
  "spec_pattern_count U text = sum_list (map (occurrences (str_lower U text)) common_patterns)"

definition spec_pattern_score :: "pyrt \<Rightarrow> pystr \<Rightarrow> real" where
  "spec_pattern_score U text =
     min 1.0 (real (spec_pattern_count U text) / max (real (max (length text) 1) / 20) 1)"

text \<open>Inputs of the examples: six scored candidates, and a text of 40 characters.\<close>

definition example_candidates :: "candidate list" where
  "example_candidates =
     [\<lparr> key = 0, plaintext = of_ascii ''a'', score = 0.5 \<rparr>,
      \<lparr> key = 1, plaintext = of_ascii ''b'', score = 0.9 \<rparr>,
      \<lparr> key = 2, plaintext = of_ascii ''c'', score = 0.5 \<rparr>,
      \<lparr> key = 3, plaintext = of_ascii ''d'', score = 0.1 \<rparr>,
      \<lparr> key = 4, plaintext = of_ascii ''e'', score = 0.9 \<rparr>,
      \<lparr> key = 5, plaintext = of_ascii ''f'', score = 0.3 \<rparr>]"

definition example_text :: pystr where
  "example_text = of_ascii ''th'' @ replicate 36 120 @ of_ascii ''th''"

text \<open>A request with a single word.\<close>

definition example_request :: request where
  "example_request = \<lparr> cipherText = Some (JStr (of_ascii ''Khoor'')), lang = None \<rparr>"

text \<open>
  A single token with an apostrophe (\<open>don't\<close>), and resources whose word list has
  this one entry.
\<close>

definition dont :: pystr where
  "dont = [100, 111, 110, 39, 116]"

definition dont_resources :: resources where
  "dont_resources = \<lparr> vocab = {dont}, stopwords = {}, bigrams = [], trigrams = [] \<rparr>"

section \<open>The shift transform\<close>

lemma mod26_undo:
  fixes d k :: int
  assumes "0 \<le> d" "d < 26"
  shows "((d + k) mod 26 + (- k) mod 26) mod 26 = d"
proof -
  have "((d + k) mod 26 + (- k) mod 26) mod 26 = (d + k + - k) mod 26"
    by (simp only: mod_add_eq)
  then show ?thesis using assms by simp
qed

lemma shift_char_unshift:
  "shift_char (shift_char c k) ((- k) mod 26) = c"
proof -
  consider (up) "65 \<le> c \<and> c \<le> 90" | (lo) "97 \<le> c \<and> c \<le> 122"
    | (other) "\<not> (65 \<le> c \<and> c \<le> 90) \<and> \<not> (97 \<le> c \<and> c \<le> 122)"
    by blast
  then show ?thesis
  proof cases
    case up
    define e where "e = (int c - 65 + k) mod 26"
    have e: "0 \<le> e" "e < 26" by (simp_all add: e_def)
    have s: "shift_char c k = nat (e + 65)" using up by (simp add: shift_char_def e_def)
    have u: "65 \<le> nat (e + 65) \<and> nat (e + 65) \<le> 90" using e by linarith
    have i: "int (nat (e + 65)) - 65 = e" using e by simp
    have "(e + (- k) mod 26) mod 26 = int c - 65"
      unfolding e_def using up by (intro mod26_undo) simp_all
    then have "shift_char (nat (e + 65)) ((- k) mod 26) = nat (int c - 65 + 65)"
      using u i by (simp add: shift_char_def)
    then show ?thesis using s by simp
  next
    case lo
    define e where "e = (int c - 97 + k) mod 26"
    have e: "0 \<le> e" "e < 26" by (simp_all add: e_def)
    have s: "shift_char c k = nat (e + 97)" using lo by (simp add: shift_char_def e_def)
    have u: "97 \<le> nat (e + 97) \<and> nat (e + 97) \<le> 122" using e by linarith
    have nu: "\<not> nat (e + 97) \<le> 90" using e by linarith
    have i: "int (nat (e + 97)) - 97 = e" using e by simp
    have "(e + (- k) mod 26) mod 26 = int c - 97"
      unfolding e_def using lo by (intro mod26_undo) simp_all
    then have "shift_char (nat (e + 97)) ((- k) mod 26) = nat (int c - 97 + 97)"
      using u nu i by (simp add: shift_char_def)
    then show ?thesis using s by simp
  next
    case other
    then have s: "shift_char c k = c" by (simp only: shift_char_def if_False)
    show ?thesis unfolding s using other by (simp only: shift_char_def if_False)
  qed
qed

lemma shift_char_zero: "shift_char c 0 = c"
  by (auto simp: shift_char_def)

lemma decrypt_encrypt: "decrypt (encrypt x k) k = x"
proof -
  have e: "(- k) mod 26 = (- (k mod 26)) mod 26"
    by (simp add: mod_minus_eq)
  have "map (\<lambda>c. shift_char c ((- (k mod 26)) mod 26)) (map (\<lambda>c. shift_char c (k mod 26)) x) = x"
    by (simp add: shift_char_unshift map_idI)
  then show ?thesis by (simp add: decrypt_def encrypt_def e)
qed

lemma encrypt_zero: "encrypt x 0 = x"
  by (simp add: encrypt_def shift_char_zero)

text \<open>
  C1. For every text \<open>x\<close> and every key \<open>k\<close> in [0,25], decrypting with \<open>k\<close> the
  encryption of \<open>x\<close> with \<open>k\<close> gives \<open>x\<close> back, and encrypting with key 0 is the
  identity.
\<close>

theorem caesar_round_trip:
  "0 \<le> k \<and> k \<le> 25 \<longrightarrow> decrypt (encrypt x k) k = x \<and> encrypt x 0 = x"
  by (simp add: decrypt_encrypt encrypt_zero)

theorem caesar_round_trip_witness:
  "(0::int) \<le> 7 \<and> (7::int) \<le> 25
   \<and> decrypt (encrypt (of_ascii ''Hello, world! 123.'') 7) 7 = of_ascii ''Hello, world! 123.''
   \<and> encrypt (of_ascii ''Hello, world! 123.'') 0 = of_ascii ''Hello, world! 123.''"
  using caesar_round_trip [of 7 "of_ascii ''Hello, world! 123.''"] by simp

lemma bf_loop_map:
  "bf_loop c ks acc = acc @ map (\<lambda>k. (k, decrypt c k)) ks"
  by (induction ks arbitrary: acc) simp_all

lemma text_lengthupto_0_25: "length [0..25::int] = 26"
  by simp

text \<open>
  C2. For every ciphertext, the empty one included, \<open>brute_force_caesar\<close> returns exactly
  26 pairs, their keys are 0, 1, ..., 25 in this order, and the plaintext paired with
  the key \<open>k\<close> is \<open>decrypt\<close> of the ciphertext with \<open>k\<close>.
\<close>

theorem brute_force_caesar_candidates:
  "length (brute_force_caesar c) = 26
   \<and> map fst (brute_force_caesar c) = [0..25]
   \<and> brute_force_caesar c = map (\<lambda>k. (k, decrypt c k)) [0..25]
   \<and> length (brute_force_caesar []) = 26"
  by (simp add: brute_force_caesar_def bf_loop_map comp_def)

section \<open>Bounds of the scores\<close>

lemma round_half_even_ge: "of_int m \<le> x \<Longrightarrow> m \<le> round_half_even x"
proof -
  assume "of_int m \<le> x"
  then have "m \<le> \<lfloor>x\<rfloor>" by (simp add: le_floor_iff)
  then show ?thesis by (simp add: round_half_even_def Let_def)
qed

lemma round_half_even_le: "x \<le> of_int m \<Longrightarrow> round_half_even x \<le> m"
proof -
  assume a: "x \<le> of_int m"
  show ?thesis
  proof (cases "x = of_int m")
    case True
    then show ?thesis by (simp add: round_half_even_def)
  next
    case False
    with a have "x < of_int m" by simp
    then have "\<lfloor>x\<rfloor> < m" by (simp add: floor_less_iff)
    then show ?thesis by (auto simp: round_half_even_def Let_def)
  qed
qed

lemma round4_ge: "0.01 \<le> x \<Longrightarrow> 0.01 \<le> round4 x"
proof -
  assume "0.01 \<le> x"
  then have "of_int 100 \<le> x * 10000" by simp
  then have "100 \<le> round_half_even (x * 10000)" by (rule round_half_even_ge)
  then have "(100::real) \<le> of_int (round_half_even (x * 10000))" by linarith
  then show ?thesis by (simp add: round4_def)
qed

lemma round4_le: "x \<le> 1 \<Longrightarrow> round4 x \<le> 1"
proof -
  assume "x \<le> 1"
  then have "x * 10000 \<le> of_int 10000" by simp
  then have "round_half_even (x * 10000) \<le> 10000" by (rule round_half_even_le)
  then have "of_int (round_half_even (x * 10000)) \<le> (10000::real)" by linarith
  then show ?thesis by (simp add: round4_def)
qed

lemma round4_ge95: "0.95 \<le> x \<Longrightarrow> 0.95 \<le> round4 x"
proof -
  assume "0.95 \<le> x"
  then have "of_int 9500 \<le> x * 10000" by simp
  then have "9500 \<le> round_half_even (x * 10000)" by (rule round_half_even_ge)
  then have "(9500::real) \<le> of_int (round_half_even (x * 10000))" by linarith
  then show ?thesis by (simp add: round4_def)
qed

lemma clamp_bounds: "(0.01::real) \<le> max 0.01 (min 1.0 x) \<and> max 0.01 (min 1.0 x) \<le> 1"
  by simp

lemma clamp_bounds': "(0.01::real) \<le> min 1.0 (max 0.01 x) \<and> min 1.0 (max 0.01 x) \<le> 1"
  by simp

lemma chi2_to_score_bounds: "0.01 \<le> chi2_to_score x \<and> chi2_to_score x \<le> 1"
  unfolding chi2_to_score_def Let_def by (rule clamp_bounds)

lemma chi_squared_bounds:
  "0.01 \<le> chi_squared_letter_score U t e \<and> chi_squared_letter_score U t e \<le> 1"
proof (cases "length (letters_of U t) = 0")
  case True
  then show ?thesis by (simp add: chi_squared_letter_score_def Let_def)
next
  case False
  then show ?thesis
    using chi2_to_score_bounds by (simp add: chi_squared_letter_score_def Let_def)
qed

lemma heuristic_score_bounds:
  "0.01 \<le> heuristic_score U t r \<and> heuristic_score U t r \<le> 1"
  unfolding heuristic_score_def Let_def by (rule clamp_bounds')

lemma filter_ratio_le1: "real (length (filter P ws)) / real (length ws) \<le> 1"
proof (cases "ws = []")
  case True
  then show ?thesis by simp
next
  case False
  have "length (filter P ws) \<le> length ws" by (rule length_filter_le)
  then show ?thesis using False by (simp add: divide_le_eq_1)
qed

lemma valid_word_ratio_bounds:
  "0 \<le> valid_word_ratio U t v \<and> valid_word_ratio U t v \<le> 1"
proof -
  define ws where "ws = findall_words U (str_lower U t)"
  define ratio where "ratio = real (length (filter (\<lambda>w. w \<in> v) ws)) / real (length ws)"
  have r: "0 \<le> ratio" "ratio \<le> 1"
    unfolding ratio_def by (simp, rule filter_ratio_le1)
  have "valid_word_ratio U t v =
          (if v = {} then 0 else if ws = [] then 0
           else if ratio = 1 \<and> length ws > 0 then min 1 (ratio + 0.05) else ratio)"
    by (simp add: valid_word_ratio_def Let_def ws_def ratio_def)
  then show ?thesis using r by simp
qed

lemma raw_score_single_match: "raw_score True True h w f = 0.95 + f * 0.05"
  by (simp add: raw_score_def)

lemma raw_score_bounds:
  assumes "0 \<le> h" "h \<le> 1" "0 \<le> w" "w \<le> 1" "0 \<le> f" "f \<le> 1"
  shows "0 \<le> raw_score s d h w f \<and> raw_score s d h w f \<le> 1"
proof -
  have a: "0 \<le> f * 0.65 + h * 0.35" "f * 0.65 + h * 0.35 \<le> 1"
          "0 \<le> w * 0.55 + h * 0.30 + f * 0.15" "w * 0.55 + h * 0.30 + f * 0.15 \<le> 1"
          "0 \<le> w * 0.45 + h * 0.35 + f * 0.20" "w * 0.45 + h * 0.35 + f * 0.20 \<le> 1"
          "0 \<le> w * 0.30 + h * 0.40 + f * 0.30" "w * 0.30 + h * 0.40 + f * 0.30 \<le> 1"
          "0 \<le> f * 0.55 + h * 0.45" "f * 0.55 + h * 0.45 \<le> 1"
          "0 \<le> 0.95 + f * 0.05" "0.95 + f * 0.05 \<le> 1"
    using assms by simp_all
  have b: "0 \<le> (f * 0.65 + h * 0.35) * 0.3" "(f * 0.65 + h * 0.35) * 0.3 \<le> 1"
    using a(1,2) by simp_all
  show ?thesis
    unfolding raw_score_def Let_def using a b by (simp only: split: if_split) simp
qed

lemma guard_score_finite: "guard_score (Finite r) = (if r < 0 then 0.01 else r)"
  by (simp add: guard_score_def isnan_def isinf_def float_neg_def)

lemma final_score_pos: "0.01 \<le> final_score s"
proof -
  have "0.01 \<le> round4 (max 0.01 (guard_score s))" by (rule round4_ge) simp
  then show ?thesis by (simp add: final_score_def Let_def)
qed

lemma final_score_le1: "r \<le> 1 \<Longrightarrow> final_score (Finite r) \<le> 1"
proof -
  assume r: "r \<le> 1"
  have "guard_score (Finite r) \<le> 1" using r by (simp add: guard_score_finite)
  then have "round4 (max 0.01 (guard_score (Finite r))) \<le> 1" by (intro round4_le) simp
  then show ?thesis by (simp add: final_score_def Let_def)
qed

lemma brute_force_caesar_eq:
  "brute_force_caesar c = map (\<lambda>k. (k, decrypt c k)) [0..25]"
  by (simp add: brute_force_caesar_def bf_loop_map)

lemma candidate_raw_score_bounds:
  "0 \<le> candidate_raw_score U r l t p \<and> candidate_raw_score U r l t p \<le> 1"
proof -
  define v where "v = augmented_vocab U r l t"
  define w where "w = (if v \<noteq> {} then valid_word_ratio U p v else 0)"
  have w: "0 \<le> w" "w \<le> 1" using valid_word_ratio_bounds [of U p v] by (simp_all add: w_def)
  have h: "0 \<le> heuristic_score U p r" "heuristic_score U p r \<le> 1"
    using heuristic_score_bounds [of U p r] by simp_all
  have f: "0 \<le> chi_squared_letter_score U p (Some (expected_freq l))"
          "chi_squared_letter_score U p (Some (expected_freq l)) \<le> 1"
    using chi_squared_bounds [of U p "Some (expected_freq l)"] by simp_all
  have "candidate_raw_score U r l t p =
          raw_score (is_single_word U t) (str_lower U (strip U p) \<in> v) (heuristic_score U p r) w
            (chi_squared_letter_score U p (Some (expected_freq l)))"
    by (simp add: candidate_raw_score_def Let_def v_def w_def)
  then show ?thesis using raw_score_bounds [OF h w f] by simp
qed

lemma score_candidate_bounds:
  "0.01 \<le> score (score_candidate U r l t kp) \<and> score (score_candidate U r l t kp) \<le> 1"
  using final_score_pos final_score_le1 candidate_raw_score_bounds
  by (simp add: score_candidate_def)

lemma round4_floor: "round4 (1 / 100) = 1 / 100"
  by (simp add: round4_def round_half_even_def)

lemma final_score_guarded:
  assumes "guard_score s = 0.01"
  shows "final_score s = 0.01"
  unfolding final_score_def Let_def assms by (simp add: round4_floor)

lemma strip_whitespace: "list_all (str_isspace U) s \<Longrightarrow> strip U s = []"
proof -
  assume "list_all (str_isspace U) s"
  then have d: "dropWhile (str_isspace U) s = []" by (induction s) simp_all
  show ?thesis by (simp only: strip_def d dropWhile.simps rev.simps)
qed

text \<open>
  C9. A request whose \<open>cipherText\<close> is missing, empty or made of whitespace only is
  answered with the client error 400, whatever the resources are: the pipeline that
  generates and scores the candidates is not reached.
\<close>

theorem analyze_empty_cipher_text:
  "cipherText req = None \<or> (\<exists>s. cipherText req = Some (JStr s) \<and> list_all (str_isspace U) s)
   \<Longrightarrow> analyze U get_resources req = Error 400 (of_ascii ''Empty cipher text'')"
proof (erule disjE)
  assume "cipherText req = None"
  then show ?thesis by (simp add: analyze_def strip_def)
next
  assume "\<exists>s. cipherText req = Some (JStr s) \<and> list_all (str_isspace U) s"
  then obtain s where s: "cipherText req = Some (JStr s)" "list_all (str_isspace U) s" by blast
  show ?thesis using s(1) strip_whitespace [OF s(2)] by (simp add: analyze_def)
qed

theorem analyze_empty_cipher_text_witness:
  "cipherText \<lparr> cipherText = Some (JStr (of_ascii ''  '')), lang = None \<rparr> = Some (JStr (of_ascii ''  ''))
   \<and> list_all (str_isspace latin1) (of_ascii ''  '')
   \<and> analyze latin1 (\<lambda>l. no_resources) \<lparr> cipherText = Some (JStr (of_ascii ''  '')), lang = None \<rparr>
       = Error 400 (of_ascii ''Empty cipher text'')
   \<and> analyze latin1 (\<lambda>l. no_resources) \<lparr> cipherText = Some (JStr []), lang = None \<rparr>
       = Error 400 (of_ascii ''Empty cipher text'')"
proof -
  have a: "list_all (str_isspace latin1) (of_ascii ''  '')"
    by (simp add: latin1_def latin1_isspace_def of_ascii_def)
  have b: "list_all (str_isspace latin1) []" by simp
  show ?thesis
    using a analyze_empty_cipher_text [of "\<lparr> cipherText = Some (JStr (of_ascii ''  '')), lang = None \<rparr>" latin1 "\<lambda>l. no_resources"]
      analyze_empty_cipher_text [of "\<lparr> cipherText = Some (JStr []), lang = None \<rparr>" latin1 "\<lambda>l. no_resources"]
    by simp
qed

text \<open>
  C10. Without an explicit table, \<open>chi_squared_letter_score\<close> uses the English letter
  frequencies: the detection of the alphabet always answers \<open>latin\<close>, the lookup of
  the profile always answers \<open>ENGLISH_LETTER_FREQ\<close>, and so does the letter-frequency
  part of \<open>heuristic_score\<close>, which has no language among its arguments.
\<close>

theorem chi_squared_default_is_english:
  "chi_squared_letter_score U t None = chi_squared_letter_score U t (Some ENGLISH_LETTER_FREQ)
   \<and> detect_language_alphabet U t = of_ascii ''latin''
   \<and> get_letter_frequencies_for_alphabet a = ENGLISH_LETTER_FREQ
   \<and> hs_freq_score U t = chi_squared_letter_score U t (Some ENGLISH_LETTER_FREQ)"
  by (simp add: chi_squared_letter_score_def get_letter_frequencies_for_alphabet_def
      detect_language_alphabet_def hs_freq_score_def Let_def)

text \<open>
  C4. On a text without alphabetic characters (the empty text included)
  \<open>chi_squared_letter_score\<close> is exactly 0.01; on every text it lies in [0.01, 1.0];
  and on a text with a letter it is the three-tier map of the normalized statistic
  (below 1: 1.0; from 1 and below 50: \<open>exp(-stat/10)\<close>; from 50: \<open>1/(1 + stat/100)\<close>),
  clamped to [0.01, 1.0].
\<close>

theorem chi_squared_letter_score_tiers:
  "((\<forall>c \<in> set t. \<not> str_isalpha U c) \<longrightarrow> chi_squared_letter_score U t e = 0.01)
   \<and> 0.01 \<le> chi_squared_letter_score U t e \<and> chi_squared_letter_score U t e \<le> 1.0
   \<and> ((\<exists>c \<in> set t. str_isalpha U c) \<longrightarrow>
        chi_squared_letter_score U t (Some ex) =
          max 0.01 (min 1.0
            (if normalized_chi2 ex (letters_of U t) < 1 then 1.0
             else if normalized_chi2 ex (letters_of U t) < 50
               then exp (- normalized_chi2 ex (letters_of U t) / 10.0)
             else 1.0 / (1.0 + normalized_chi2 ex (letters_of U t) / 100.0))))"
proof -
  have a: "(\<forall>c \<in> set t. \<not> str_isalpha U c) \<longrightarrow> chi_squared_letter_score U t e = 0.01"
  proof
    assume "\<forall>c \<in> set t. \<not> str_isalpha U c"
    then have "filter (str_isalpha U) t = []" by (simp add: filter_empty_conv)
    then show "chi_squared_letter_score U t e = 0.01"
      by (simp add: chi_squared_letter_score_def letters_of_def)
  qed
  have b: "(\<exists>c \<in> set t. str_isalpha U c) \<longrightarrow>
        chi_squared_letter_score U t (Some ex) =
          max 0.01 (min 1.0
            (if normalized_chi2 ex (letters_of U t) < 1 then 1.0
             else if normalized_chi2 ex (letters_of U t) < 50
               then exp (- normalized_chi2 ex (letters_of U t) / 10.0)
             else 1.0 / (1.0 + normalized_chi2 ex (letters_of U t) / 100.0)))"
  proof
    assume "\<exists>c \<in> set t. str_isalpha U c"
    then have "filter (str_isalpha U) t \<noteq> []" by (simp add: filter_empty_conv)
    then have "length (letters_of U t) \<noteq> 0" by (simp add: letters_of_def)
    then have "chi_squared_letter_score U t (Some ex) = chi2_to_score (normalized_chi2 ex (letters_of U t))"
      by (simp add: chi_squared_letter_score_def Let_def)
    then show "chi_squared_letter_score U t (Some ex) =
          max 0.01 (min 1.0
            (if normalized_chi2 ex (letters_of U t) < 1 then 1.0
             else if normalized_chi2 ex (letters_of U t) < 50
               then exp (- normalized_chi2 ex (letters_of U t) / 10.0)
             else 1.0 / (1.0 + normalized_chi2 ex (letters_of U t) / 100.0)))"
      by (simp only: chi2_to_score_def Let_def)
  qed
  show ?thesis using a b chi_squared_bounds [of U t e] by simp
qed

section \<open>Ranking\<close>

lemma sort_candidates_sorted:
  "sorted_wrt (\<lambda>a b. score a \<ge> score b) (sort_candidates cs)"
proof -
  have "sorted (map (\<lambda>c. - score c) (sort_candidates cs))"
    unfolding sort_candidates_def by (rule sorted_sort_key)
  then show ?thesis by (simp add: sorted_map sorted_wrt_iff_nth_less)
qed

lemma sort_candidates_stable:
  "filter (\<lambda>c. score c = s) (sort_candidates cs) = filter (\<lambda>c. score c = s) cs"
proof -
  have "filter (\<lambda>c. - score c = - s) (sort_key (\<lambda>c. - score c) cs)
          = filter (\<lambda>c. - score c = - s) cs"
    by (rule sort_key_stable)
  then show ?thesis by (simp add: sort_candidates_def)
qed

lemma sorted_wrt_by_groups:
  assumes "\<And>s. sorted_wrt R (filter (\<lambda>c. f c = s) xs)"
  shows "sorted_wrt (\<lambda>a b. f a = f b \<longrightarrow> R a b) xs"
  using assms
proof (induction xs)
  case Nil
  then show ?case by simp
next
  case (Cons a xs)
  have tl: "sorted_wrt R (filter (\<lambda>c. f c = s) xs)" for s
    using Cons.prems [of s] by (cases "f a = s") simp_all
  have hd: "\<forall>b \<in> set xs. f a = f b \<longrightarrow> R a b"
    using Cons.prems [of "f a"] by auto
  show ?case using Cons.IH [OF tl] hd by simp
qed

lemma sort_candidates_keys:
  assumes "sorted_wrt (\<lambda>a b. key a < key b) cs"
  shows "sorted_wrt (\<lambda>a b. score a = score b \<longrightarrow> key a < key b) (sort_candidates cs)"
proof (rule sorted_wrt_by_groups)
  fix s
  have "sorted_wrt (\<lambda>a b. key a < key b) (filter (\<lambda>c. score c = s) cs)"
    using assms by (rule sorted_wrt_filter)
  then show "sorted_wrt (\<lambda>a b. key a < key b) (filter (\<lambda>c. score c = s) (sort_candidates cs))"
    by (simp only: sort_candidates_stable)
qed

lemma fix_score_pos: "0 < score c \<Longrightarrow> fix_score c = c"
  by (simp add: fix_score_def)

lemma rank_candidates_pos:
  assumes "cs \<noteq> []" "\<forall>c \<in> set cs. 0 < score c"
  shows "rank_candidates cs = Inr (hd (sort_candidates cs), take 5 (sort_candidates cs))"
proof -
  have ne: "sort_candidates cs \<noteq> []"
    using assms(1) by (metis length_sort sort_candidates_def length_0_conv)
  have s: "set (sort_candidates cs) = set cs" by (simp add: sort_candidates_def)
  have "hd (sort_candidates cs) \<in> set cs" using ne s hd_in_set by blast
  then have h: "fix_score (hd (sort_candidates cs)) = hd (sort_candidates cs)"
    using assms(2) by (simp add: fix_score_pos)
  have "\<forall>c \<in> set (take 5 (sort_candidates cs)). fix_score c = c"
    using assms(2) s by (metis fix_score_pos in_set_takeD)
  then have t: "map fix_score (take 5 (sort_candidates cs)) = take 5 (sort_candidates cs)"
    by (simp add: map_idI)
  show ?thesis using assms(1) h t by (simp add: rank_candidates_def Let_def)
qed

text \<open>
  C7. Ranking N scored candidates (N at least 1, scores positive as every scored
  candidate's is) returns the first min(N, 5) entries of the candidates sorted by
  descending score. The sort is a permutation and is stable: the candidates of any one
  score keep their order, so with keys ascending in the input, candidates of equal
  score stay in ascending key order. The best candidate is the first entry, and no
  candidate has a higher score.
\<close>

theorem rank_candidates_top5:
  assumes "cs \<noteq> []" and "\<forall>c \<in> set cs. 0 < score c"
  shows "rank_candidates cs = Inr (hd (sort_candidates cs), take 5 (sort_candidates cs))
    \<and> length (take 5 (sort_candidates cs)) = min (length cs) 5
    \<and> mset (sort_candidates cs) = mset cs
    \<and> sorted_wrt (\<lambda>a b. score a \<ge> score b) (sort_candidates cs)
    \<and> sorted_wrt (\<lambda>a b. score a \<ge> score b) (take 5 (sort_candidates cs))
    \<and> (\<forall>s. filter (\<lambda>c. score c = s) (sort_candidates cs) = filter (\<lambda>c. score c = s) cs)
    \<and> (sorted_wrt (\<lambda>a b. key a < key b) cs \<longrightarrow>
          sorted_wrt (\<lambda>a b. score a = score b \<longrightarrow> key a < key b) (take 5 (sort_candidates cs)))
    \<and> hd (sort_candidates cs) = take 5 (sort_candidates cs) ! 0
    \<and> (\<forall>c \<in> set cs. score c \<le> score (hd (sort_candidates cs)))"
proof -
  have ne: "sort_candidates cs \<noteq> []"
    using assms(1) by (metis length_sort sort_candidates_def length_0_conv)
  have a: "length (take 5 (sort_candidates cs)) = min (length cs) 5"
    by (simp add: sort_candidates_def)
  have b: "mset (sort_candidates cs) = mset cs" by (simp add: sort_candidates_def)
  have c: "sorted_wrt (\<lambda>a b. score a \<ge> score b) (take 5 (sort_candidates cs))"
    using sort_candidates_sorted [of cs] by (rule sorted_wrt_take)
  have d: "sorted_wrt (\<lambda>a b. key a < key b) cs \<longrightarrow>
          sorted_wrt (\<lambda>a b. score a = score b \<longrightarrow> key a < key b) (take 5 (sort_candidates cs))"
    using sort_candidates_keys [of cs] sorted_wrt_take by blast
  have e: "hd (sort_candidates cs) = take 5 (sort_candidates cs) ! 0"
    using ne by (simp add: hd_conv_nth)
  have f: "\<forall>c \<in> set cs. score c \<le> score (hd (sort_candidates cs))"
  proof
    fix c assume "c \<in> set cs"
    then have m: "c \<in> set (sort_candidates cs)" by (simp add: sort_candidates_def)
    obtain x xs where x: "sort_candidates cs = x # xs" using ne by (cases "sort_candidates cs") auto
    have "\<forall>y \<in> set xs. score y \<le> score x"
      using sort_candidates_sorted [of cs] unfolding x by simp
    then show "score c \<le> score (hd (sort_candidates cs))" using m unfolding x by auto
  qed
  show ?thesis
    using rank_candidates_pos [OF assms] a b c d e f sort_candidates_sorted [of cs]
      sort_candidates_stable [of _ cs]
    by blast
qed

lemma sort_example_candidates:
  "sort_candidates example_candidates =
     [\<lparr> key = 1, plaintext = of_ascii ''b'', score = 0.9 \<rparr>,
      \<lparr> key = 4, plaintext = of_ascii ''e'', score = 0.9 \<rparr>,
      \<lparr> key = 0, plaintext = of_ascii ''a'', score = 0.5 \<rparr>,
      \<lparr> key = 2, plaintext = of_ascii ''c'', score = 0.5 \<rparr>,
      \<lparr> key = 5, plaintext = of_ascii ''f'', score = 0.3 \<rparr>,
      \<lparr> key = 3, plaintext = of_ascii ''d'', score = 0.1 \<rparr>]"
  by (simp add: sort_candidates_def example_candidates_def)

theorem rank_candidates_top5_witness:
  "example_candidates \<noteq> []
   \<and> list_all (\<lambda>c. 0 < score c) example_candidates
   \<and> sorted_wrt (\<lambda>a b. key a < key b) example_candidates
   \<and> rank_candidates example_candidates =
       Inr (\<lparr> key = 1, plaintext = of_ascii ''b'', score = 0.9 \<rparr>,
            [\<lparr> key = 1, plaintext = of_ascii ''b'', score = 0.9 \<rparr>,
             \<lparr> key = 4, plaintext = of_ascii ''e'', score = 0.9 \<rparr>,
             \<lparr> key = 0, plaintext = of_ascii ''a'', score = 0.5 \<rparr>,
             \<lparr> key = 2, plaintext = of_ascii ''c'', score = 0.5 \<rparr>,
             \<lparr> key = 5, plaintext = of_ascii ''f'', score = 0.3 \<rparr>])
   \<and> sorted_wrt (\<lambda>a b. score a = score b \<longrightarrow> key a < key b)
         (take 5 (sort_candidates example_candidates))"
proof -
  have a: "example_candidates \<noteq> []" by (simp add: example_candidates_def)
  have b: "\<forall>c \<in> set example_candidates. 0 < score c" by (simp add: example_candidates_def)
  have c: "sorted_wrt (\<lambda>a b. key a < key b) example_candidates"
    by (simp add: example_candidates_def)
  have d: "list_all (\<lambda>c. 0 < score c) example_candidates" using b by (simp add: list_all_iff)
  have e: "rank_candidates example_candidates =
             Inr (hd (sort_candidates example_candidates), take 5 (sort_candidates example_candidates))"
          "sorted_wrt (\<lambda>a b. score a = score b \<longrightarrow> key a < key b)
             (take 5 (sort_candidates example_candidates))"
    using rank_candidates_top5 [OF a b] c by blast+
  show ?thesis using a c d e(2) unfolding e(1) sort_example_candidates by simp
qed

section \<open>The exact dictionary match\<close>

lemma lower_dont: "str_lower latin1 dont = dont"
  by (simp add: dont_def latin1_def latin1_lower_char_def)

lemma strip_dont: "strip latin1 dont = dont"
  by (simp add: strip_def dont_def latin1_def latin1_isspace_def)

lemma split_dont: "split latin1 dont = [dont]"
  by (simp add: split_def dont_def latin1_def latin1_isspace_def)

lemma decrypt_dont: "decrypt dont 0 = dont"
  by (simp add: decrypt_def encrypt_zero)

lemma not_single_word_dont: "\<not> is_single_word latin1 dont"
  by (simp add: is_single_word_def match_token_def in_token_class_def dont_def
      latin1_def latin1_word_def latin1_isalpha_def)

lemma findall_dont: "findall_words latin1 dont = [[100, 111, 110], [116]]"
  by (simp add: findall_words_def dont_def word_boundary_def in_word_class_def
      latin1_def latin1_word_def latin1_isalpha_def)

lemma dont_in_vocab:
  "str_lower latin1 (strip latin1 dont) \<in> augmented_vocab latin1 dont_resources (of_ascii ''en'') dont"
  unfolding strip_dont lower_dont
  by (simp add: augmented_vocab_def dont_resources_def lower_dont)

lemma vr_dont: "valid_word_ratio latin1 dont {dont} = 0"
  unfolding valid_word_ratio_def lower_dont findall_dont Let_def
  by (simp add: dont_def)

lemma vocab_dont:
  "augmented_vocab latin1 dont_resources (of_ascii ''en'') dont = {dont} \<union> COMMON_WORDS_en"
  by (simp add: augmented_vocab_def dont_resources_def lower_dont common_aug_def)

lemma word_score_dont:
  "valid_word_ratio latin1 dont (augmented_vocab latin1 dont_resources (of_ascii ''en'') dont) = 0"
  unfolding valid_word_ratio_def lower_dont findall_dont Let_def vocab_dont
  by (simp add: COMMON_WORDS_en_def dont_def of_ascii_def)

lemma pattern_score_le1: "pattern_score U t \<le> 1"
  by (simp add: pattern_score_def Let_def)

lemma hs_ent_score_le1: "hs_ent_score U t \<le> 1"
  by (simp add: hs_ent_score_def Let_def)

lemma hs_freq_score_le1: "hs_freq_score U t \<le> 1"
  using chi_squared_bounds [of U t None] by (simp add: hs_freq_score_def)

lemma heuristic_dont: "heuristic_score latin1 dont dont_resources \<le> 0.7"
proof -
  have f: "hs_freq_score latin1 dont \<le> 1" by (rule hs_freq_score_le1)
  have p: "pattern_score latin1 dont \<le> 1" by (rule pattern_score_le1)
  have e: "hs_ent_score latin1 dont \<le> 1" by (rule hs_ent_score_le1)
  define x where "x = 0.50 * hs_freq_score latin1 dont + 0.30 * 0
             + 0.15 * pattern_score latin1 dont + 0.05 * hs_ent_score latin1 dont"
  have x: "x \<le> 0.7" unfolding x_def using f p e by simp
  have "heuristic_score latin1 dont dont_resources = min 1.0 (max 0.01 x)"
    unfolding heuristic_score_def lower_dont split_dont Let_def x_def
    by (simp add: dont_resources_def vr_dont)
  then show ?thesis using x by simp
qed

lemma raw_dont:
  "candidate_raw_score latin1 dont_resources (of_ascii ''en'') dont dont \<le> 0.865"
proof -
  let ?f = "chi_squared_letter_score latin1 dont (Some (expected_freq (of_ascii ''en'')))"
  let ?h = "heuristic_score latin1 dont dont_resources"
  have f: "?f \<le> 1" using chi_squared_bounds [of latin1 dont "Some (expected_freq (of_ascii ''en''))"] by simp
  have v: "augmented_vocab latin1 dont_resources (of_ascii ''en'') dont \<noteq> {}"
    using dont_in_vocab by blast
  have "candidate_raw_score latin1 dont_resources (of_ascii ''en'') dont dont
          = raw_score False True ?h 0 ?f"
    unfolding candidate_raw_score_def Let_def
    using v not_single_word_dont dont_in_vocab by (simp add: word_score_dont)
  also have "\<dots> = ?f * 0.55 + ?h * 0.45" by (simp add: raw_score_def)
  finally show ?thesis using f heuristic_dont by simp
qed

lemma round4_le_865: "x \<le> 0.865 \<Longrightarrow> round4 x \<le> 0.865"
proof -
  assume "x \<le> 0.865"
  then have "x * 10000 \<le> of_int 8650" by simp
  then have "round_half_even (x * 10000) \<le> 8650" by (rule round_half_even_le)
  then have "of_int (round_half_even (x * 10000)) \<le> (8650::real)" by linarith
  then show ?thesis by (simp add: round4_def)
qed

text \<open>
  C8, as stated, fails. The input \<open>don't\<close> is one whitespace-delimited token and, as
  the candidate of key 0, an entry of the dictionary; but the apostrophe is not matched
  by \<open>^[\w\u0080-\uFFFF]+$\<close>, so \<open>is_single_word\<close> is false, the multi-word branch
  scores the candidate, and its score is below 0.95.
\<close>

theorem single_token_dictionary_match_counterexample:
  "length (split latin1 dont) = 1
   \<and> \<not> is_single_word latin1 dont
   \<and> str_lower latin1 (strip latin1 (decrypt dont 0))
       \<in> augmented_vocab latin1 dont_resources (of_ascii ''en'') dont
   \<and> candidate_raw_score latin1 dont_resources (of_ascii ''en'') dont (decrypt dont 0) < 0.95
   \<and> score (score_candidate latin1 dont_resources (of_ascii ''en'') dont (0, decrypt dont 0)) < 0.95"
proof -
  let ?r = "candidate_raw_score latin1 dont_resources (of_ascii ''en'') dont dont"
  have r: "?r \<le> 0.865" by (rule raw_dont)
  have r0: "0 \<le> ?r" using candidate_raw_score_bounds [of latin1 dont_resources "of_ascii ''en''" dont dont] by simp
  have g: "guard_score (Finite ?r) = ?r" using r0 by (simp add: guard_score_finite)
  have "max 0.01 ?r \<le> 0.865" using r by simp
  then have m: "round4 (max 0.01 ?r) \<le> 0.865" by (rule round4_le_865)
  have p: "0.01 \<le> round4 (max 0.01 ?r)" by (rule round4_ge) simp
  have "final_score (Finite ?r) = round4 (max 0.01 ?r)"
    unfolding final_score_def Let_def g using p by simp
  then have s: "score (score_candidate latin1 dont_resources (of_ascii ''en'') dont (0, dont)) \<le> 0.865"
    using m by (simp add: score_candidate_def)
  show ?thesis unfolding decrypt_dont
    using split_dont not_single_word_dont dont_in_vocab r s by simp
qed

text \<open>
  C8, amended. When the input is a single whitespace-delimited token all of whose
  characters are word characters (\<open>\w\<close>) or lie between U+0080 and U+FFFF (the
  \<open>is_single_word\<close> of the code), and the stripped, lowercased candidate plaintext is
  an entry of the dictionary, the score computed for the candidate is 0.95 plus 0.05
  times its letter-frequency score; it lies between 0.95 and 1.0, and so does the final
  score, which is this score rounded to four decimals.
\<close>

theorem single_word_dictionary_match:
  assumes "is_single_word U t"
    and "str_lower U (strip U p) \<in> augmented_vocab U r l t"
  shows "candidate_raw_score U r l t p
           = 0.95 + 0.05 * chi_squared_letter_score U p (Some (expected_freq l))
    \<and> 0.95 \<le> candidate_raw_score U r l t p \<and> candidate_raw_score U r l t p \<le> 1.0
    \<and> score (score_candidate U r l t (k, p)) = round4 (candidate_raw_score U r l t p)
    \<and> 0.95 \<le> score (score_candidate U r l t (k, p))
    \<and> score (score_candidate U r l t (k, p)) \<le> 1.0"
proof -
  let ?f = "chi_squared_letter_score U p (Some (expected_freq l))"
  have f: "0.01 \<le> ?f" "?f \<le> 1" using chi_squared_bounds [of U p "Some (expected_freq l)"] by simp_all
  have raw: "candidate_raw_score U r l t p = 0.95 + 0.05 * ?f"
    using assms by (simp add: candidate_raw_score_def Let_def raw_score_single_match)
  have lo: "0.95 \<le> candidate_raw_score U r l t p" and hi: "candidate_raw_score U r l t p \<le> 1"
    using f unfolding raw by simp_all
  have g: "guard_score (Finite (candidate_raw_score U r l t p)) = candidate_raw_score U r l t p"
    using lo by (simp add: guard_score_finite)
  have m: "max 0.01 (candidate_raw_score U r l t p) = candidate_raw_score U r l t p"
    using lo by simp
  have r95: "0.95 \<le> round4 (candidate_raw_score U r l t p)" using lo by (rule round4_ge95)
  have r1: "round4 (candidate_raw_score U r l t p) \<le> 1" using hi by (rule round4_le)
  have fs: "final_score (Finite (candidate_raw_score U r l t p)) = round4 (candidate_raw_score U r l t p)"
    unfolding final_score_def Let_def g m using r95 by simp
  have sc: "score (score_candidate U r l t (k, p)) = round4 (candidate_raw_score U r l t p)"
    by (simp add: score_candidate_def fs)
  show ?thesis using raw lo hi sc r95 r1 by simp
qed

lemma decrypt_khoor: "decrypt (of_ascii ''khoor'') 3 = of_ascii ''hello''"
  by (simp add: decrypt_def encrypt_def shift_char_def of_ascii_def)

lemma single_word_khoor: "is_single_word latin1 (of_ascii ''khoor'')"
  by (simp add: is_single_word_def split_def match_token_def in_token_class_def
      latin1_def latin1_isspace_def latin1_word_def latin1_isalpha_def of_ascii_def)

lemma hello_in_vocab:
  "str_lower latin1 (strip latin1 (of_ascii ''hello''))
     \<in> augmented_vocab latin1 no_resources (of_ascii ''en'') (of_ascii ''khoor'')"
  by (simp add: augmented_vocab_def no_resources_def common_aug_def COMMON_WORDS_en_def
      strip_def latin1_def latin1_isspace_def latin1_lower_char_def of_ascii_def)

theorem single_word_dictionary_match_witness:
  "is_single_word latin1 (of_ascii ''khoor'')
   \<and> str_lower latin1 (strip latin1 (decrypt (of_ascii ''khoor'') 3))
       \<in> augmented_vocab latin1 no_resources (of_ascii ''en'') (of_ascii ''khoor'')
   \<and> candidate_raw_score latin1 no_resources (of_ascii ''en'') (of_ascii ''khoor'')
         (decrypt (of_ascii ''khoor'') 3)
       = 0.95 + 0.05 * chi_squared_letter_score latin1 (of_ascii ''hello'')
                         (Some (expected_freq (of_ascii ''en'')))
   \<and> 0.95 \<le> score (score_candidate latin1 no_resources (of_ascii ''en'') (of_ascii ''khoor'')
                      (3, decrypt (of_ascii ''khoor'') 3))
   \<and> score (score_candidate latin1 no_resources (of_ascii ''en'') (of_ascii ''khoor'')
              (3, decrypt (of_ascii ''khoor'') 3)) \<le> 1.0"
  unfolding decrypt_khoor
  using single_word_dictionary_match [OF single_word_khoor hello_in_vocab, of 3]
    single_word_khoor hello_in_vocab
  by blast

section \<open>The letter-frequency score on concrete texts\<close>

lemma letters_zzzz: "letters_of latin1 (of_ascii ''zzzz'') = [[122],[122],[122],[122]]"
  by (simp add: letters_of_def latin1_def latin1_isalpha_def latin1_lower_char_def of_ascii_def)

lemma english_keys:
  "map fst ENGLISH_LETTER_FREQ =
     [[97],[98],[99],[100],[101],[102],[103],[104],[105],[106],[107],[108],[109],[110],
      [111],[112],[113],[114],[115],[116],[117],[118],[119],[120],[121],[122]]"
  by (simp add: ENGLISH_LETTER_FREQ_def)

lemma all_letters_zzzz:
  "all_letters [[122],[122],[122],[122]] ENGLISH_LETTER_FREQ =
     [[97],[98],[99],[100],[101],[102],[103],[104],[105],[106],[107],[108],[109],[110],
      [111],[112],[113],[114],[115],[116],[117],[118],[119],[120],[121],[122]]"
  by (simp add: all_letters_def counter_keys_def english_keys)

lemma stat_zzzz: "normalized_chi2 ENGLISH_LETTER_FREQ [[122],[122],[122],[122]] = 1099527 / 625000"
  unfolding normalized_chi2_def chi2_statistic_def all_letters_zzzz Let_def
  by (simp add: chi2_step_def dict_get_def ENGLISH_LETTER_FREQ_def power2_eq_square)

theorem chi_squared_letter_score_tiers_witness:
  "list_all (\<lambda>c. \<not> str_isalpha latin1 c) (of_ascii ''123'')
   \<and> chi_squared_letter_score latin1 (of_ascii ''123'') None = 0.01
   \<and> chi_squared_letter_score latin1 [] None = 0.01
   \<and> list_ex (str_isalpha latin1) (of_ascii ''zzzz'')
   \<and> chi_squared_letter_score latin1 (of_ascii ''zzzz'') (Some ENGLISH_LETTER_FREQ)
       = max 0.01 (min 1.0 (exp (- (1099527 / 625000) / 10.0)))"
proof -
  have a: "\<forall>c \<in> set (of_ascii ''123''). \<not> str_isalpha latin1 c"
    by (simp add: latin1_def latin1_isalpha_def of_ascii_def)
  have b: "\<exists>c \<in> set (of_ascii ''zzzz''). str_isalpha latin1 c"
    by (simp add: latin1_def latin1_isalpha_def of_ascii_def)
  have c: "\<forall>c \<in> set []. \<not> str_isalpha latin1 c" by simp
  have 1: "chi_squared_letter_score latin1 (of_ascii ''123'') None = 0.01"
    using chi_squared_letter_score_tiers [of "of_ascii ''123''" latin1 None] a by blast
  have 2: "chi_squared_letter_score latin1 [] None = 0.01"
    using chi_squared_letter_score_tiers [of "[]" latin1 None] c by blast
  have 3: "chi_squared_letter_score latin1 (of_ascii ''zzzz'') (Some ENGLISH_LETTER_FREQ) =
          max 0.01 (min 1.0
            (if normalized_chi2 ENGLISH_LETTER_FREQ (letters_of latin1 (of_ascii ''zzzz'')) < 1 then 1.0
             else if normalized_chi2 ENGLISH_LETTER_FREQ (letters_of latin1 (of_ascii ''zzzz'')) < 50
               then exp (- normalized_chi2 ENGLISH_LETTER_FREQ (letters_of latin1 (of_ascii ''zzzz'')) / 10.0)
             else 1.0 / (1.0 + normalized_chi2 ENGLISH_LETTER_FREQ (letters_of latin1 (of_ascii ''zzzz'')) / 100.0)))"
    using chi_squared_letter_score_tiers [of "of_ascii ''zzzz''" latin1 _ ENGLISH_LETTER_FREQ] b by blast
  have 4: "chi_squared_letter_score latin1 (of_ascii ''zzzz'') (Some ENGLISH_LETTER_FREQ)
       = max 0.01 (min 1.0 (exp (- (1099527 / 625000) / 10.0)))"
    unfolding 3 letters_zzzz stat_zzzz by simp
  have a': "list_all (\<lambda>c. \<not> str_isalpha latin1 c) (of_ascii ''123'')"
    using a by (simp add: list_all_iff)
  have b': "list_ex (str_isalpha latin1) (of_ascii ''zzzz'')"
    using b by (simp add: list_ex_iff)
  show ?thesis using a' b' 1 2 4 by blast
qed

lemma letters_e10: "letters_of latin1 (replicate 10 233) = replicate 10 [233]"
  by (simp add: letters_of_def latin1_def latin1_isalpha_def latin1_lower_char_def)

lemma all_letters_e10:
  "all_letters (replicate 10 [233]) ENGLISH_LETTER_FREQ =
     [[233],[97],[98],[99],[100],[101],[102],[103],[104],[105],[106],[107],[108],[109],[110],
      [111],[112],[113],[114],[115],[116],[117],[118],[119],[120],[121],[122]]"
  by (simp add: all_letters_def counter_keys_def english_keys numeral_eq_Suc)

lemma count_e10: "count_list (replicate 10 [233::nat]) ch = (if ch = [233] then 10 else 0)"
  by (simp add: numeral_eq_Suc)

lemma length_e10: "length (replicate 10 [233::nat]) = 10"
  by simp

lemma stat_e10: "chi2_statistic ENGLISH_LETTER_FREQ (replicate 10 [233]) = 9983 / 1000"
  unfolding chi2_statistic_def all_letters_e10
  by (simp add: chi2_step_def dict_get_def ENGLISH_LETTER_FREQ_def power2_eq_square count_e10)

text \<open>
  C5. The claim asks for a penalty of 10 for each occurrence of an observed letter whose
  expected frequency is zero. In \<open>chi2_step\<close> the penalty is inside the branch
  \<open>exp_freq > 0\<close>, so such a letter adds nothing: in a text of ten times the letter
  U+00E9, which is not in the English profile, the letter is counted ten times, its step
  leaves the statistic unchanged, the statistic is 9.983 (not 109.983), and the score of
  the text is 1.0.
\<close>

theorem chi2_absent_letter_not_penalized:
  "letters_of latin1 (replicate 10 233) = replicate 10 [233]
   \<and> count_list (letters_of latin1 (replicate 10 233)) [233] = 10
   \<and> dict_get ENGLISH_LETTER_FREQ [233] 0.0 = 0
   \<and> chi2_step ENGLISH_LETTER_FREQ (letters_of latin1 (replicate 10 233)) 0 [233] = 0
   \<and> chi2_statistic ENGLISH_LETTER_FREQ (letters_of latin1 (replicate 10 233)) = 9983 / 1000
   \<and> chi_squared_letter_score latin1 (replicate 10 233) (Some ENGLISH_LETTER_FREQ) = 1"
proof -
  have d: "dict_get ENGLISH_LETTER_FREQ [233] 0.0 = 0"
    by (simp add: dict_get_def ENGLISH_LETTER_FREQ_def)
  have s: "chi2_step ENGLISH_LETTER_FREQ (replicate 10 [233]) 0 [233] = 0"
    using d by (simp add: chi2_step_def Let_def)
  have n: "normalized_chi2 ENGLISH_LETTER_FREQ (replicate 10 [233]) = 9983 / 26000"
    unfolding normalized_chi2_def stat_e10 all_letters_e10 Let_def by simp
  have "chi_squared_letter_score latin1 (replicate 10 233) (Some ENGLISH_LETTER_FREQ)
          = chi2_to_score (normalized_chi2 ENGLISH_LETTER_FREQ (replicate 10 [233]))"
    unfolding chi_squared_letter_score_def letters_e10 Let_def by simp
  then have c: "chi_squared_letter_score latin1 (replicate 10 233) (Some ENGLISH_LETTER_FREQ) = 1"
    unfolding n by (simp add: chi2_to_score_def)
  show ?thesis unfolding letters_e10 using d s stat_e10 c count_e10 [of "[233]"] by simp
qed

section \<open>The pattern feature\<close>

lemma lower_example_text: "str_lower latin1 example_text = example_text"
  by (simp add: example_text_def latin1_def latin1_lower_char_def of_ascii_def map_replicate_const)

lemma example_text_list:
  "example_text = [116, 104] @ replicate 36 120 @ [116, 104]"
  by (simp add: example_text_def of_ascii_def)

lemma count_example_text: "pattern_count latin1 example_text = 1"
  unfolding pattern_count_def Let_def lower_example_text
  by (simp add: example_text_def common_patterns_def of_ascii_def numeral_eq_Suc)

lemma spec_count_example_text: "spec_pattern_count latin1 example_text = 2"
  unfolding spec_pattern_count_def lower_example_text
  by (simp add: example_text_def common_patterns_def of_ascii_def numeral_eq_Suc)

lemma length_example_text: "length example_text = 40"
  by (simp add: example_text_def of_ascii_def)

text \<open>
  C6, as stated, fails: on the text \<open>th\<close>, 36 times \<open>x\<close>, \<open>th\<close> the entry \<open>th\<close>
  occurs twice, the code counts it once, and the feature is 0.5 where counting the
  occurrences gives 1.0.
\<close>

theorem pattern_score_counts_occurrences_counterexample:
  "pattern_count latin1 example_text = 1
   \<and> spec_pattern_count latin1 example_text = 2
   \<and> pattern_score latin1 example_text = 1 / 2
   \<and> spec_pattern_score latin1 example_text = 1
   \<and> pattern_score latin1 example_text \<noteq> spec_pattern_score latin1 example_text"
proof -
  have a: "pattern_score latin1 example_text = 1 / 2"
    unfolding pattern_score_def Let_def count_example_text length_example_text by simp
  have b: "spec_pattern_score latin1 example_text = 1"
    unfolding spec_pattern_score_def spec_count_example_text length_example_text by simp
  show ?thesis unfolding a b using count_example_text spec_count_example_text by simp
qed

lemma distinct_common_patterns: "distinct common_patterns"
  by (simp add: common_patterns_def of_ascii_def)

lemma length_common_patterns: "length common_patterns = 28"
  by (simp add: common_patterns_def)

text \<open>
  C6, amended. The pattern feature counts the entries of the fixed list of 28 two-letter
  sequences that occur at least once in the lowercased text, each entry once however
  often it occurs; it divides this count by the larger of length/20 and 1, and the
  result, cut at 1.0, lies in [0, 1].
\<close>

theorem pattern_score_presence:
  "pattern_count U t = card {p. p \<in> set common_patterns \<and> contains (str_lower U t) p}
   \<and> pattern_count U t \<le> 28
   \<and> pattern_score U t = min 1.0 (real (pattern_count U t) / max (real (max (length t) 1) / 20) 1)
   \<and> 0 \<le> pattern_score U t \<and> pattern_score U t \<le> 1"
proof -
  let ?P = "\<lambda>p. contains (str_lower U t) p"
  have "distinct (filter ?P common_patterns)"
    using distinct_common_patterns by (rule distinct_filter)
  then have "card (set (filter ?P common_patterns)) = length (filter ?P common_patterns)"
    by (rule distinct_card)
  then have a: "pattern_count U t = card {p. p \<in> set common_patterns \<and> ?P p}"
    by (simp add: pattern_count_def Let_def)
  have "length (filter ?P common_patterns) \<le> length common_patterns"
    by (rule length_filter_le)
  then have b: "pattern_count U t \<le> 28"
    by (simp add: pattern_count_def Let_def length_common_patterns)
  have c: "pattern_score U t = min 1.0 (real (pattern_count U t) / max (real (max (length t) 1) / 20) 1)"
    by (simp add: pattern_score_def Let_def)
  have d: "0 \<le> real (pattern_count U t) / max (real (max (length t) 1) / 20) 1"
    by (intro divide_nonneg_nonneg) simp_all
  have e: "0 \<le> pattern_score U t" "pattern_score U t \<le> 1"
    unfolding c using d by simp_all
  show ?thesis using a b c e by blast
qed

section \<open>The scores of a response\<close>

lemma score_candidates_nonempty: "score_candidates U r l t \<noteq> []"
  by (simp add: score_candidates_def brute_force_caesar_eq)

lemma score_candidates_positive: "\<forall>c \<in> set (score_candidates U r l t). 0 < score c"
proof
  fix c assume "c \<in> set (score_candidates U r l t)"
  then obtain kp where c: "c = score_candidate U r l t kp"
    by (auto simp: score_candidates_def)
  show "0 < score c" using score_candidate_bounds [of U r l t kp] unfolding c by simp
qed

lemma run_pipeline_success:
  "run_pipeline U g t l =
     Success \<lparr> r_cipher = take 500 t,
               r_key = key (hd (sort_candidates (score_candidates U (g l) l t))),
               r_plainText = take 500 (plaintext (hd (sort_candidates (score_candidates U (g l) l t)))),
               r_score = score (hd (sort_candidates (score_candidates U (g l) l t))),
               r_candidates = take 5 (sort_candidates (score_candidates U (g l) l t)) \<rparr>"
  using rank_candidates_pos [OF score_candidates_nonempty score_candidates_positive, of U "g l" l t]
  by (simp add: run_pipeline_def Let_def)

lemma analyze_success:
  assumes "cipherText req = Some (JStr raw)" "strip U raw \<noteq> []"
  shows "analyze U g req = run_pipeline U g (strip U raw) (request_lang req)"
  using assms by (simp add: analyze_def Let_def)

lemma analyze_cases:
  "analyze U g req = Success out \<Longrightarrow>
     \<exists>t l. out = \<lparr> r_cipher = take 500 t,
               r_key = key (hd (sort_candidates (score_candidates U (g l) l t))),
               r_plainText = take 500 (plaintext (hd (sort_candidates (score_candidates U (g l) l t)))),
               r_score = score (hd (sort_candidates (score_candidates U (g l) l t))),
               r_candidates = take 5 (sort_candidates (score_candidates U (g l) l t)) \<rparr>"
  unfolding analyze_def Let_def run_pipeline_success
  by (auto split: option.splits json.splits if_splits)

lemma sorted_scores_in_range:
  assumes "c \<in> set (sort_candidates (score_candidates U r l t))"
  shows "0 < score c \<and> score c \<le> 1 \<and> score c \<noteq> 0.0"
proof -
  have "c \<in> set (score_candidates U r l t)" using assms by (simp add: sort_candidates_def)
  then obtain kp where c: "c = score_candidate U r l t kp"
    by (auto simp: score_candidates_def)
  show ?thesis using score_candidate_bounds [of U r l t kp] unfolding c by simp
qed

lemma response_scores_in_range:
  assumes "analyze U g req = Success out"
  shows "0 < r_score out \<and> r_score out \<le> 1
         \<and> (\<forall>c \<in> set (r_candidates out). 0 < score c \<and> score c \<le> 1 \<and> score c \<noteq> 0.0)"
proof -
  obtain t l where out: "out = \<lparr> r_cipher = take 500 t,
               r_key = key (hd (sort_candidates (score_candidates U (g l) l t))),
               r_plainText = take 500 (plaintext (hd (sort_candidates (score_candidates U (g l) l t)))),
               r_score = score (hd (sort_candidates (score_candidates U (g l) l t))),
               r_candidates = take 5 (sort_candidates (score_candidates U (g l) l t)) \<rparr>"
    using analyze_cases [OF assms] by blast
  let ?s = "sort_candidates (score_candidates U (g l) l t)"
  have ne: "?s \<noteq> []"
    using score_candidates_nonempty [of U "g l" l t]
    by (metis length_sort sort_candidates_def length_0_conv)
  then have h: "hd ?s \<in> set ?s" by simp
  have a: "0 < r_score out \<and> r_score out \<le> 1"
    using sorted_scores_in_range [OF h] by (simp add: out)
  have b: "\<forall>c \<in> set (r_candidates out). 0 < score c \<and> score c \<le> 1 \<and> score c \<noteq> 0.0"
  proof
    fix c assume "c \<in> set (r_candidates out)"
    then have "c \<in> set ?s" by (auto simp: out dest: in_set_takeD)
    then show "0 < score c \<and> score c \<le> 1 \<and> score c \<noteq> 0.0" by (rule sorted_scores_in_range)
  qed
  show ?thesis using a b by blast
qed

text \<open>
  C3. Every candidate that the loop of \<open>analyze\<close> scores gets a score in (0, 1], never
  0.0, and so do the score and the candidates of a successful response; a computed score
  that is not-a-number, infinite or negative gives the final score 0.01.
\<close>

theorem analyze_scores_in_range:
  "(\<forall>c \<in> set (score_candidates U r l t). 0 < score c \<and> score c \<le> 1 \<and> score c \<noteq> 0.0)
   \<and> (analyze U g req = Success out \<longrightarrow>
        0 < r_score out \<and> r_score out \<le> 1
        \<and> (\<forall>c \<in> set (r_candidates out). 0 < score c \<and> score c \<le> 1 \<and> score c \<noteq> 0.0))
   \<and> final_score NaN = 0.01 \<and> final_score PosInf = 0.01 \<and> final_score NegInf = 0.01
   \<and> (x < 0 \<longrightarrow> final_score (Finite x) = 0.01)"
proof -
  have a: "\<forall>c \<in> set (score_candidates U r l t). 0 < score c \<and> score c \<le> 1 \<and> score c \<noteq> 0.0"
  proof
    fix c assume "c \<in> set (score_candidates U r l t)"
    then obtain kp where c: "c = score_candidate U r l t kp"
      by (auto simp: score_candidates_def)
    show "0 < score c \<and> score c \<le> 1 \<and> score c \<noteq> 0.0"
      using score_candidate_bounds [of U r l t kp] unfolding c by simp
  qed
  have b: "final_score NaN = 0.01" "final_score PosInf = 0.01" "final_score NegInf = 0.01"
    by (rule final_score_guarded, simp add: guard_score_def isnan_def isinf_def)+
  have c: "x < 0 \<longrightarrow> final_score (Finite x) = 0.01"
  proof
    assume "x < 0"
    then have "guard_score (Finite x) = 0.01" by (simp add: guard_score_finite)
    then show "final_score (Finite x) = 0.01" by (rule final_score_guarded)
  qed
  show ?thesis using a b c response_scores_in_range [of U g req out] by blast
qed

lemma strip_khoor: "strip latin1 (of_ascii ''Khoor'') = of_ascii ''Khoor''"
  by (simp add: strip_def latin1_def latin1_isspace_def of_ascii_def)

theorem analyze_scores_in_range_witness:
  "score_candidate latin1 no_resources (of_ascii ''en'') (of_ascii ''Khoor'')
       (3, decrypt (of_ascii ''Khoor'') 3)
     \<in> set (score_candidates latin1 no_resources (of_ascii ''en'') (of_ascii ''Khoor''))
   \<and> 0 < score (score_candidate latin1 no_resources (of_ascii ''en'') (of_ascii ''Khoor'')
                  (3, decrypt (of_ascii ''Khoor'') 3))
   \<and> score (score_candidate latin1 no_resources (of_ascii ''en'') (of_ascii ''Khoor'')
                  (3, decrypt (of_ascii ''Khoor'') 3)) \<le> 1
   \<and> (\<exists>out. analyze latin1 (\<lambda>l. no_resources) example_request = Success out
         \<and> 0 < r_score out \<and> r_score out \<le> 1 \<and> length (r_candidates out) = 5
         \<and> list_all (\<lambda>c. 0 < score c \<and> score c \<le> 1) (r_candidates out))
   \<and> (- 1 :: real) < 0 \<and> final_score (Finite (- 1)) = 0.01"
proof -
  let ?t = "of_ascii ''Khoor''"
  let ?c = "score_candidate latin1 no_resources (of_ascii ''en'') ?t (3, decrypt ?t 3)"
  have "(3::int) \<in> set [0..25]" by simp
  then have m: "?c \<in> set (score_candidates latin1 no_resources (of_ascii ''en'') ?t)"
    unfolding score_candidates_def brute_force_caesar_eq by (simp only: set_map image_eqI)
  have ct: "cipherText example_request = Some (JStr ?t)" by (simp add: example_request_def)
  have ne: "strip latin1 ?t \<noteq> []" unfolding strip_khoor by (simp add: of_ascii_def)
  have s: "analyze latin1 (\<lambda>l. no_resources) example_request
             = run_pipeline latin1 (\<lambda>l. no_resources) ?t (request_lang example_request)"
    using analyze_success [OF ct ne, of "\<lambda>l. no_resources"] unfolding strip_khoor .
  obtain out where out: "analyze latin1 (\<lambda>l. no_resources) example_request = Success out"
    "length (r_candidates out) = 5"
    unfolding s run_pipeline_success
    by (simp add: sort_candidates_def score_candidates_def brute_force_caesar_eq)
  note w = analyze_scores_in_range [of latin1 no_resources "of_ascii ''en''" ?t "\<lambda>l. no_resources"
      example_request out "- 1"]
  have r: "0 < r_score out \<and> r_score out \<le> 1" using w out(1) by blast
  have "\<forall>c \<in> set (r_candidates out). 0 < score c \<and> score c \<le> 1" using w out(1) by blast
  then have l: "list_all (\<lambda>c. 0 < score c \<and> score c \<le> 1) (r_candidates out)"
    by (simp add: list_all_iff)
  have f: "final_score (Finite (- 1)) = 0.01" using w by simp
  have c3: "0 < score ?c \<and> score ?c \<le> 1" using w m by blast
  show ?thesis using m c3 out r l f by auto
qed

end
